theory Spec2Isabelle
  imports Main "HOL-Library.Word" "HOL-Library.Monad_Syntax" "HOL-Library.List_Lexorder"
    "HOL-Library.Multiset"
begin

section \<open>JavaScript strings and values\<close>

text \<open>
  A JavaScript string is a sequence of 16-bit code units; \<open>length\<close>, \<open>padStart\<close>,
  \<open>slice\<close>, \<open>trim\<close> and the default \<open>sort\<close> order all work on code units. The ASCII
  literals of the source are written with \<open>str\<close>; the em dash of the templates is the
  single code unit U+2014.
\<close>

type_synonym jsstring = "16 word list"

definition str :: "string \<Rightarrow> jsstring" where
  "str s = map (\<lambda>c. of_nat (of_char c)) s"

definition em_dash :: "16 word" where
  "em_dash = 0x2014"

definition dquote :: "16 word" where
  "dquote = 0x22"

definition newline :: "16 word" where
  "newline = 0x0A"

text \<open>
  The values the two scripts handle: what \<open>JSON.parse\<close> builds (null, booleans, numbers,
  strings, arrays, objects with own data properties), the literals \<open>{}\<close>, \<open>[]\<close>, \<open>""\<close>
  and \<open>8\<close> of the source, and \<open>undefined\<close>, which reading a missing property gives.
  Numbers are the integer-valued ones; an object is the list of its own properties.
\<close>

datatype val =
    JUndefined
  | JNull
  | JBool bool
  | JNum int
  | JStr jsstring
  | JArr "val list"
  | JObj "(jsstring \<times> val) list"

fun nullish :: "val \<Rightarrow> bool" where
  "nullish JUndefined = True"
| "nullish JNull = True"
| "nullish _ = False"

fun truthy :: "val \<Rightarrow> bool" where
  "truthy JUndefined = False"
| "truthy JNull = False"
| "truthy (JBool b) = b"
| "truthy (JNum n) = (n \<noteq> 0)"
| "truthy (JStr s) = (s \<noteq> [])"
| "truthy (JArr xs) = True"
| "truthy (JObj kvs) = True"

text \<open>\<open>a ?? b\<close> and \<open>a || b\<close>.\<close>

definition coalesce :: "val \<Rightarrow> val \<Rightarrow> val" where
  "coalesce a b = (if nullish a then b else a)"

definition or_else :: "val \<Rightarrow> val \<Rightarrow> val" where
  "or_else a b = (if truthy a then a else b)"

text \<open>
  Evaluating an expression either gives a value or throws; every throw inside the two
  render blocks is a \<open>TypeError\<close>, so an expression is modelled in the option monad with
  \<open>None\<close> for the throw.

  Property access \<open>v.k\<close> throws on \<open>null\<close> and \<open>undefined\<close>. On an object it reads the own
  property; on the other values it reads the prototype, which has none of the data
  property names the scripts use, so the result is \<open>undefined\<close>.
\<close>

definition lookup :: "(jsstring \<times> val) list \<Rightarrow> jsstring \<Rightarrow> val" where
  "lookup kvs k = (case map_of kvs k of None \<Rightarrow> JUndefined | Some v \<Rightarrow> v)"

fun get :: "val \<Rightarrow> jsstring \<Rightarrow> val option" where
  "get JUndefined k = None"
| "get JNull k = None"
| "get (JObj kvs) k = Some (lookup kvs k)"
| "get (JBool b) k = Some JUndefined"
| "get (JNum n) k = Some JUndefined"
| "get (JStr s) k = Some JUndefined"
| "get (JArr xs) k = Some JUndefined"

text \<open>Optional chaining \<open>v?.k\<close>.\<close>

definition get_opt :: "val \<Rightarrow> jsstring \<Rightarrow> val option" where
  "get_opt v k = (if nullish v then Some JUndefined else get v k)"

subsection \<open>Conversion to string\<close>

fun digits :: "nat \<Rightarrow> jsstring" where
  "digits n = (if n < 10 then [of_nat (48 + n)]
               else digits (n div 10) @ [of_nat (48 + n mod 10)])"

declare digits.simps [simp del]

definition number_to_string :: "int \<Rightarrow> jsstring" where
  "number_to_string n = (if n < 0 then str ''-'' @ digits (nat (- n)) else digits (nat n))"

text \<open>
  \<open>ToString\<close>, as \<open>String(v)\<close>, a template substitution, string concatenation and the
  \<open>textContent\<close> setter apply it. An array is joined with commas; an object goes through
  \<open>toString\<close>, which is \<open>Object.prototype.toString\<close> unless the document gave the object
  an own \<open>toString\<close> property, and that one is not callable, so the conversion throws.
  \<open>join\<close> renders \<open>null\<close> and \<open>undefined\<close> elements as the empty string.
\<close>

fun to_string :: "val \<Rightarrow> jsstring option"
  and join :: "jsstring \<Rightarrow> val list \<Rightarrow> jsstring option" where
  "to_string JUndefined = Some (str ''undefined'')"
| "to_string JNull = Some (str ''null'')"
| "to_string (JBool b) = Some (if b then str ''true'' else str ''false'')"
| "to_string (JNum n) = Some (number_to_string n)"
| "to_string (JStr s) = Some s"
| "to_string (JArr xs) = join (str '','') xs"
| "to_string (JObj kvs) =
     (if map_of kvs (str ''toString'') = None then Some (str ''[object Object]'') else None)"
| "join sep [] = Some []"
| "join sep [x] = (if nullish x then Some [] else to_string x)"
| "join sep (x # y # ys) = do {
     s \<leftarrow> (if nullish x then Some [] else to_string x);
     rest \<leftarrow> join sep (y # ys);
     Some (s @ sep @ rest)
   }"

text \<open>\<open>v.join(sep)\<close>: only an array has a callable \<open>join\<close>.\<close>

fun call_join :: "val \<Rightarrow> jsstring \<Rightarrow> jsstring option" where
  "call_join (JArr xs) sep = join sep xs"
| "call_join _ sep = None"

subsection \<open>String methods\<close>

definition padStart :: "nat \<Rightarrow> 16 word \<Rightarrow> jsstring \<Rightarrow> jsstring" where
  "padStart n c s = (if n \<le> length s then s else replicate (n - length s) c @ s)"

text \<open>White space and line terminators, as \<open>String.prototype.trim\<close> removes them.\<close>

definition is_space :: "16 word \<Rightarrow> bool" where
  "is_space c = (c \<in> set [0x09, 0x0A, 0x0B, 0x0C, 0x0D, 0x20, 0xA0, 0x1680, 0x2028, 0x2029,
                          0x202F, 0x205F, 0x3000, 0xFEFF]
                 \<or> (0x2000 \<le> c \<and> c \<le> 0x200A))"

definition trim :: "jsstring \<Rightarrow> jsstring" where
  "trim s = rev (dropWhile is_space (rev (dropWhile is_space s)))"

text \<open>\<open>lines.join(sep)\<close> on an array of strings.\<close>

fun join_strings :: "jsstring \<Rightarrow> jsstring list \<Rightarrow> jsstring" where
  "join_strings sep [] = []"
| "join_strings sep [x] = x"
| "join_strings sep (x # y # ys) = x @ sep @ join_strings sep (y # ys)"

section \<open>The display\<close>

text \<open>
  A region of the host page holds what was last assigned to it: a text
  (\<open>textContent = s\<close>) or markup for the browser to parse (\<open>innerHTML = s\<close>). The host
  page provides every region the scripts look up. \<open>console\<close> is the log that
  \<open>console.error\<close> appends to.
\<close>

datatype content = Text jsstring | Html jsstring

datatype error = FetchRejected | FetchFailed nat | JsonParseError | TypeError

record console_state =
  console :: "error list"

record page = console_state +
  status :: content
  day :: content
  diagnosis :: content
  agon :: content
  mandate :: content
  artifact :: content
  build :: content

record archive_page = console_state +
  list :: content

text \<open>
  What \<open>fetch\<close> followed by \<open>r.json()\<close> delivers: the request fails, or a response
  arrives with a status and a body that parses to a value or does not parse.
  \<open>r.ok\<close> is true for the statuses 200 to 299.
\<close>

datatype fetched = NetworkFailure | Response nat "val option"

definition ok :: "nat \<Rightarrow> bool" where
  "ok st = (200 \<le> st \<and> st \<le> 299)"

text \<open>
  The statements of a \<open>try\<close> block run in order; the first one that throws ends the block
  and leaves the page as the statements before it wrote it.
\<close>

fun run_stmts :: "('s \<Rightarrow> 's option) list \<Rightarrow> 's \<Rightarrow> error option \<times> 's" where
  "run_stmts [] p = (None, p)"
| "run_stmts (s # ss) p =
     (case s p of None \<Rightarrow> (Some TypeError, p) | Some p' \<Rightarrow> run_stmts ss p')"

text \<open>The promise of an async function: fulfilled, or rejected with the error that escaped.\<close>

datatype completion = Fulfilled | Rejected error

section \<open>ReportView (app.js)\<close>

text \<open>Line 15: \<open>status.textContent = ""\<close>.\<close>

definition clear_status :: "page \<Rightarrow> page option" where
  "clear_status p = Some (p\<lparr>status := Text []\<rparr>)"

text \<open>Line 16: the day label template.\<close>

definition day_text :: "val \<Rightarrow> jsstring option" where
  "day_text j = do {
     dn \<leftarrow> get j (str ''day_number'');
     n \<leftarrow> to_string (coalesce dn (JStr []));
     d \<leftarrow> get j (str ''date'');
     t \<leftarrow> to_string (coalesce d (JStr []));
     Some (str ''DAY '' @ padStart 3 0x30 n @ str '' '' @ [em_dash] @ str '' '' @ t)
   }"

definition write_day :: "val \<Rightarrow> page \<Rightarrow> page option" where
  "write_day j p = do { s \<leftarrow> day_text j; Some (p\<lparr>day := Text s\<rparr>) }"

text \<open>Line 18: \<open>diagnosis.textContent = j.diagnosis ?? ""\<close>.\<close>

definition diagnosis_text :: "val \<Rightarrow> jsstring option" where
  "diagnosis_text j = do {
     d \<leftarrow> get j (str ''diagnosis'');
     to_string (coalesce d (JStr []))
   }"

definition write_diagnosis :: "val \<Rightarrow> page \<Rightarrow> page option" where
  "write_diagnosis j p = do { s \<leftarrow> diagnosis_text j; Some (p\<lparr>diagnosis := Text s\<rparr>) }"

text \<open>Lines 20 to 23: \<open>agonText\<close> and its trimmed assignment.\<close>

definition agonText :: "val \<Rightarrow> jsstring option" where
  "agonText j = do {
     a \<leftarrow> get j (str ''agon'');
     s \<leftarrow> get_opt a (str ''summary'');
     part1 \<leftarrow> (if truthy s
               then do {
                 a' \<leftarrow> get j (str ''agon'');
                 s' \<leftarrow> get a' (str ''summary'');
                 t \<leftarrow> to_string s';
                 Some (t @ [newline, newline])
               }
               else Some []);
     b \<leftarrow> get j (str ''agon'');
     w \<leftarrow> get_opt b (str ''winner'');
     part2 \<leftarrow> (if truthy w
               then do {
                 b' \<leftarrow> get j (str ''agon'');
                 w' \<leftarrow> get b' (str ''winner'');
                 t \<leftarrow> to_string w';
                 Some (str ''Winner: '' @ t)
               }
               else Some []);
     Some (part1 @ part2)
   }"

definition write_agon :: "val \<Rightarrow> page \<Rightarrow> page option" where
  "write_agon j p = do { s \<leftarrow> agonText j; Some (p\<lparr>agon := Text (trim s)\<rparr>) }"

text \<open>Lines 25 to 33: the mandate lines, \<open>filter(Boolean)\<close> and \<open>join("\n")\<close>.\<close>

definition mandate_lines :: "val \<Rightarrow> jsstring list option" where
  "mandate_lines j = do {
     mv \<leftarrow> get j (str ''mandate'');
     let m = or_else mv (JObj []);
     medium \<leftarrow> get m (str ''medium'');
     l1 \<leftarrow> to_string (coalesce medium (JStr []));
     axis \<leftarrow> get m (str ''emotional_axis'');
     l2 \<leftarrow> to_string (coalesce axis (JStr []));
     cs \<leftarrow> get m (str ''constraints'');
     l3 \<leftarrow> call_join (or_else cs (JArr [])) (str ''; '');
     tb \<leftarrow> get m (str ''timebox_hours'');
     l4 \<leftarrow> to_string (coalesce tb (JNum 8));
     dv \<leftarrow> get m (str ''deliverable'');
     l5 \<leftarrow> to_string (coalesce dv (JStr []));
     Some (filter (\<lambda>l. l \<noteq> [])
       [trim (str ''Compose: '' @ l1),
        trim (str ''Emotional axis: '' @ l2),
        trim (str ''Constraint(s): '' @ l3),
        trim (str ''Timebox: '' @ l4 @ str '' hours''),
        trim (str ''Deliverable: '' @ l5)])
   }"

definition write_mandate :: "val \<Rightarrow> page \<Rightarrow> page option" where
  "write_mandate j p = do {
     lines \<leftarrow> mandate_lines j;
     Some (p\<lparr>mandate := Text (join_strings [newline] lines)\<rparr>)
   }"

text \<open>
  Lines 35 to 39: the artifact branch. \<open>===\<close> against a string literal holds for a
  string of the same code units only; \<open>&&\<close> reads the url only when the status matched.
\<close>

definition artifact_done :: "val \<Rightarrow> bool option" where
  "artifact_done j = do {
     a \<leftarrow> get j (str ''artifact'');
     st \<leftarrow> get_opt a (str ''status'');
     if st = JStr (str ''DONE'')
     then do {
       a' \<leftarrow> get j (str ''artifact'');
       u \<leftarrow> get_opt a' (str ''url'');
       Some (truthy u)
     }
     else Some False
   }"

definition done_link :: "jsstring \<Rightarrow> jsstring" where
  "done_link url =
     str ''DONE '' @ [em_dash] @ str '' <a href='' @ [dquote] @ url @ [dquote] @ str ''>Open</a>''"

definition write_artifact :: "val \<Rightarrow> page \<Rightarrow> page option" where
  "write_artifact j p = do {
     c \<leftarrow> artifact_done j;
     if c
     then do {
       a \<leftarrow> get j (str ''artifact'');
       u \<leftarrow> get a (str ''url'');
       s \<leftarrow> to_string u;
       Some (p\<lparr>artifact := Html (done_link s)\<rparr>)
     }
     else Some (p\<lparr>artifact := Text (str ''PENDING'')\<rparr>)
   }"

text \<open>Line 41: the build label, written only under a truthy \<open>j.engine?.version\<close>.\<close>

definition write_build :: "val \<Rightarrow> page \<Rightarrow> page option" where
  "write_build j p = do {
     e \<leftarrow> get j (str ''engine'');
     v \<leftarrow> get_opt e (str ''version'');
     if truthy v
     then do {
       e' \<leftarrow> get j (str ''engine'');
       v' \<leftarrow> get e' (str ''version'');
       s \<leftarrow> to_string v';
       Some (p\<lparr>build := Text (str ''ENGINE v'' @ s)\<rparr>)
     }
     else Some p
   }"

text \<open>Lines 15 to 41, in order.\<close>

definition render :: "val \<Rightarrow> (page \<Rightarrow> page option) list" where
  "render j = [clear_status, write_day j, write_diagnosis j, write_agon j, write_mandate j,
               write_artifact j, write_build j]"

text \<open>Lines 10 to 41: the \<open>try\<close> block, from the fetch on.\<close>

definition try_report :: "fetched \<Rightarrow> page \<Rightarrow> error option \<times> page" where
  "try_report f p =
     (case f of
        NetworkFailure \<Rightarrow> (Some FetchRejected, p)
      | Response st b \<Rightarrow>
          if \<not> ok st then (Some (FetchFailed st), p)
          else (case b of
                  None \<Rightarrow> (Some JsonParseError, p)
                | Some j \<Rightarrow> run_stmts (render j) p))"

text \<open>Lines 42 to 49: the \<open>catch\<close> handler.\<close>

definition unavailable :: jsstring where
  "unavailable = str ''Report unavailable right now.''"

definition catch_report :: "error \<Rightarrow> page \<Rightarrow> page" where
  "catch_report e p =
     p\<lparr>status := Text unavailable, diagnosis := Text [], agon := Text [],
       mandate := Text [], artifact := Text [], console := console p @ [e]\<rparr>"

definition ReportView :: "fetched \<Rightarrow> page \<Rightarrow> completion \<times> page" where
  "ReportView f p =
     (case try_report f p of
        (None, p') \<Rightarrow> (Fulfilled, p')
      | (Some e, p') \<Rightarrow> (Fulfilled, catch_report e p'))"

section \<open>ArchiveView (archive.js)\<close>

text \<open>
  \<open>xs.sort()\<close> without a comparator orders the elements by their string conversions,
  compared code unit by code unit, keeps the order of equal elements and moves
  \<open>undefined\<close> to the end without converting it. With fewer than two elements to
  compare nothing is converted.
\<close>

definition sort_array :: "val list \<Rightarrow> val list option" where
  "sort_array xs =
     (let defined = filter (\<lambda>x. x \<noteq> JUndefined) xs;
          undefineds = filter (\<lambda>x. x = JUndefined) xs
      in if length defined \<le> 1 then Some (defined @ undefineds)
         else do {
           keys \<leftarrow> those (map to_string defined);
           Some (map snd (sort_key fst (zip keys defined)) @ undefineds)
         })"

text \<open>
  Line 9: \<open>(j.dates || []).slice().sort().reverse()\<close>. An array has all three methods.
  A string has \<open>slice\<close> but no \<open>sort\<close>, a number, a boolean and an object have no
  callable \<open>slice\<close>: on them the chain throws.
\<close>

definition newest_first :: "val \<Rightarrow> val list option" where
  "newest_first v =
     (case v of
        JArr xs \<Rightarrow> do { sorted_xs \<leftarrow> sort_array xs; Some (rev sorted_xs) }
      | _ \<Rightarrow> None)"

text \<open>
  \<open>d.slice(a, b)\<close> for the literal bounds of line 11, \<open>0 \<le> a \<le> b\<close>: strings and arrays
  have it, nothing else does.
\<close>

fun call_slice :: "val \<Rightarrow> nat \<Rightarrow> nat \<Rightarrow> val option" where
  "call_slice (JStr s) a b = Some (JStr (take (b - a) (drop a s)))"
| "call_slice (JArr xs) a b = Some (JArr (take (b - a) (drop a xs)))"
| "call_slice _ a b = None"

text \<open>Lines 11 and 12: the callback of \<open>dates.map\<close>.\<close>

definition archive_entry :: "val \<Rightarrow> jsstring option" where
  "archive_entry d = do {
     y \<leftarrow> call_slice d 0 4;
     year \<leftarrow> to_string y;
     m \<leftarrow> call_slice d 5 7;
     month \<leftarrow> to_string m;
     stem \<leftarrow> to_string d;
     let href = str ''reports/'' @ year @ str ''/'' @ month @ str ''/'' @ stem @ str ''.json'';
     label \<leftarrow> to_string d;
     Some (str ''<div><a href='' @ [dquote] @ href @ [dquote] @ str ''>'' @ label
           @ str ''</a></div>'')
   }"

text \<open>Lines 9 to 13.\<close>

definition archive_markup :: "val \<Rightarrow> jsstring option" where
  "archive_markup j = do {
     ds \<leftarrow> get j (str ''dates'');
     dates \<leftarrow> newest_first (or_else ds (JArr []));
     entries \<leftarrow> those (map archive_entry dates);
     Some (concat entries)
   }"

definition write_list :: "val \<Rightarrow> archive_page \<Rightarrow> archive_page option" where
  "write_list j p = do { s \<leftarrow> archive_markup j; Some (p\<lparr>list := Html s\<rparr>) }"

definition try_archive :: "fetched \<Rightarrow> archive_page \<Rightarrow> error option \<times> archive_page" where
  "try_archive f p =
     (case f of
        NetworkFailure \<Rightarrow> (Some FetchRejected, p)
      | Response st b \<Rightarrow>
          if \<not> ok st then (Some (FetchFailed st), p)
          else (case b of
                  None \<Rightarrow> (Some JsonParseError, p)
                | Some j \<Rightarrow> run_stmts [write_list j] p))"

text \<open>Lines 14 to 17: the \<open>catch\<close> handler.\<close>

definition catch_archive :: "error \<Rightarrow> archive_page \<Rightarrow> archive_page" where
  "catch_archive e p = p\<lparr>list := Text (str ''Archive unavailable.''), console := console p @ [e]\<rparr>"

definition ArchiveView :: "fetched \<Rightarrow> archive_page \<Rightarrow> completion \<times> archive_page" where
  "ArchiveView f p =
     (case try_archive f p of
        (None, p') \<Rightarrow> (Fulfilled, p')
      | (Some e, p') \<Rightarrow> (Fulfilled, catch_archive e p'))"

section \<open>Markup assigned to innerHTML\<close>

text \<open>
  Assigning to \<open>innerHTML\<close> hands the string to the HTML fragment parser of the browser,
  and the children of the region are the nodes it builds. The parser is modelled on the
  part of HTML the two scripts write: text, start and end tags with attributes, and the
  elements \<open>a\<close> and \<open>div\<close>, properly nested, inside a region that is an ordinary container
  (its content is parsed as body content). Every function returns \<open>None\<close> outside that part:
  at a character reference (\<open>&\<close>), a comment or declaration, a tag that switches the
  tokenizer to raw text, any other element, and at mis-nested tags.
\<close>

datatype token =
    Character "16 word"
  | StartTag jsstring "(jsstring \<times> jsstring) list"
  | EndTag jsstring

datatype node =
    TextNode jsstring
  | Element jsstring "(jsstring \<times> jsstring) list" "node list"

text \<open>The input stream: a carriage return, with a line feed after it or not, becomes a line feed.\<close>

fun normalize_newlines :: "jsstring \<Rightarrow> jsstring" where
  "normalize_newlines [] = []"
| "normalize_newlines [c] = [if c = 0x0D then 0x0A else c]"
| "normalize_newlines (c # d # cs) =
     (if c = 0x0D \<and> d = 0x0A then 0x0A # normalize_newlines cs
      else if c = 0x0D then 0x0A # normalize_newlines (d # cs)
      else c # normalize_newlines (d # cs))"

text \<open>
  The tokenizer. A tag under construction carries its kind, its name and the attributes
  completed so far; the states that read an attribute carry its name and value.
\<close>

record tag =
  closing :: bool
  tag_name :: jsstring
  attrs :: "(jsstring \<times> jsstring) list"

datatype tstate =
    Data
  | TagOpen
  | EndTagOpen
  | TagName tag
  | BeforeAttrName tag
  | AttrName tag jsstring
  | AfterAttrName tag jsstring
  | BeforeAttrValue tag jsstring
  | ValueDoubleQuoted tag jsstring jsstring
  | ValueSingleQuoted tag jsstring jsstring
  | ValueUnquoted tag jsstring jsstring
  | AfterValueQuoted tag
  | SelfClosing tag

definition is_ws :: "16 word \<Rightarrow> bool" where
  "is_ws c = (c = 0x09 \<or> c = 0x0A \<or> c = 0x0C \<or> c = 0x20)"

definition is_upper :: "16 word \<Rightarrow> bool" where
  "is_upper c = (0x41 \<le> c \<and> c \<le> 0x5A)"

definition is_alpha :: "16 word \<Rightarrow> bool" where
  "is_alpha c = (is_upper c \<or> (0x61 \<le> c \<and> c \<le> 0x7A))"

text \<open>
  A character of a tag or attribute name is lowercased, a character of an attribute value
  is taken as it is; in both U+0000 becomes U+FFFD.
\<close>

definition name_char :: "16 word \<Rightarrow> 16 word" where
  "name_char c = (if is_upper c then c + 0x20 else if c = 0 then 0xFFFD else c)"

definition value_char :: "16 word \<Rightarrow> 16 word" where
  "value_char c = (if c = 0 then 0xFFFD else c)"

text \<open>A completed attribute is dropped when the tag already has one of that name.\<close>

definition add_attr :: "tag \<Rightarrow> jsstring \<Rightarrow> jsstring \<Rightarrow> tag" where
  "add_attr t n v = (if map_of (attrs t) n = None then t\<lparr>attrs := attrs t @ [(n, v)]\<rparr> else t)"

definition raw_text_names :: "jsstring list" where
  "raw_text_names =
     map str [''title'', ''textarea'', ''style'', ''xmp'', ''iframe'', ''noembed'', ''noframes'',
              ''noscript'', ''script'', ''plaintext'']"

text \<open>
  Emitting a tag returns to the data state. An end tag loses its attributes. After a start
  tag of a raw text element the tokenizer would leave the data state: not modelled.
\<close>

definition emit :: "tag \<Rightarrow> (token list \<times> tstate) option" where
  "emit t =
     (if closing t then Some ([EndTag (tag_name t)], Data)
      else if tag_name t \<in> set raw_text_names then None
      else Some ([StartTag (tag_name t) (attrs t)], Data))"

text \<open>
  One function per state: the tokens emitted and the next state for the character read.
  Where the standard reconsumes the character in another state, that state's function is
  applied to it.
\<close>

definition data :: "16 word \<Rightarrow> (token list \<times> tstate) option" where
  "data c =
     (if c = 0x26 then None
      else if c = 0x3C then Some ([], TagOpen)
      else Some ([Character c], Data))"

definition tag_open :: "16 word \<Rightarrow> (token list \<times> tstate) option" where
  "tag_open c =
     (if c = 0x21 \<or> c = 0x3F then None
      else if c = 0x2F then Some ([], EndTagOpen)
      else if is_alpha c
      then Some ([], TagName \<lparr>closing = False, tag_name = [name_char c], attrs = []\<rparr>)
      else map_option (\<lambda>(ts, s). (Character 0x3C # ts, s)) (data c))"

definition end_tag_open :: "16 word \<Rightarrow> (token list \<times> tstate) option" where
  "end_tag_open c =
     (if is_alpha c
      then Some ([], TagName \<lparr>closing = True, tag_name = [name_char c], attrs = []\<rparr>)
      else if c = 0x3E then Some ([], Data)
      else None)"

definition in_tag_name :: "tag \<Rightarrow> 16 word \<Rightarrow> (token list \<times> tstate) option" where
  "in_tag_name t c =
     (if is_ws c then Some ([], BeforeAttrName t)
      else if c = 0x2F then Some ([], SelfClosing t)
      else if c = 0x3E then emit t
      else Some ([], TagName (t\<lparr>tag_name := tag_name t @ [name_char c]\<rparr>)))"

definition before_attr_name :: "tag \<Rightarrow> 16 word \<Rightarrow> (token list \<times> tstate) option" where
  "before_attr_name t c =
     (if is_ws c then Some ([], BeforeAttrName t)
      else if c = 0x2F then Some ([], SelfClosing t)
      else if c = 0x3E then emit t
      else if c = 0x3D then Some ([], AttrName t [c])
      else Some ([], AttrName t [name_char c]))"

definition after_attr_name :: "tag \<Rightarrow> jsstring \<Rightarrow> 16 word \<Rightarrow> (token list \<times> tstate) option" where
  "after_attr_name t n c =
     (if is_ws c then Some ([], AfterAttrName t n)
      else if c = 0x2F then Some ([], SelfClosing (add_attr t n []))
      else if c = 0x3D then Some ([], BeforeAttrValue t n)
      else if c = 0x3E then emit (add_attr t n [])
      else Some ([], AttrName (add_attr t n []) [name_char c]))"

definition in_attr_name :: "tag \<Rightarrow> jsstring \<Rightarrow> 16 word \<Rightarrow> (token list \<times> tstate) option" where
  "in_attr_name t n c =
     (if is_ws c \<or> c = 0x2F \<or> c = 0x3E then after_attr_name t n c
      else if c = 0x3D then Some ([], BeforeAttrValue t n)
      else Some ([], AttrName t (n @ [name_char c])))"

definition value_unquoted ::
  "tag \<Rightarrow> jsstring \<Rightarrow> jsstring \<Rightarrow> 16 word \<Rightarrow> (token list \<times> tstate) option" where
  "value_unquoted t n v c =
     (if is_ws c then Some ([], BeforeAttrName (add_attr t n v))
      else if c = 0x26 then None
      else if c = 0x3E then emit (add_attr t n v)
      else Some ([], ValueUnquoted t n (v @ [value_char c])))"

definition before_attr_value :: "tag \<Rightarrow> jsstring \<Rightarrow> 16 word \<Rightarrow> (token list \<times> tstate) option" where
  "before_attr_value t n c =
     (if is_ws c then Some ([], BeforeAttrValue t n)
      else if c = 0x22 then Some ([], ValueDoubleQuoted t n [])
      else if c = 0x27 then Some ([], ValueSingleQuoted t n [])
      else if c = 0x3E then emit (add_attr t n [])
      else value_unquoted t n [] c)"

definition value_double_quoted ::
  "tag \<Rightarrow> jsstring \<Rightarrow> jsstring \<Rightarrow> 16 word \<Rightarrow> (token list \<times> tstate) option" where
  "value_double_quoted t n v c =
     (if c = 0x22 then Some ([], AfterValueQuoted (add_attr t n v))
      else if c = 0x26 then None
      else Some ([], ValueDoubleQuoted t n (v @ [value_char c])))"

definition value_single_quoted ::
  "tag \<Rightarrow> jsstring \<Rightarrow> jsstring \<Rightarrow> 16 word \<Rightarrow> (token list \<times> tstate) option" where
  "value_single_quoted t n v c =
     (if c = 0x27 then Some ([], AfterValueQuoted (add_attr t n v))
      else if c = 0x26 then None
      else Some ([], ValueSingleQuoted t n (v @ [value_char c])))"

text \<open>
  After a quoted value: white space, \<open>/\<close> and \<open>>\<close> as before an attribute name, and any
  other character is reconsumed there, so a character right after the closing quote
  starts the next attribute name.
\<close>

definition after_value_quoted :: "tag \<Rightarrow> 16 word \<Rightarrow> (token list \<times> tstate) option" where
  "after_value_quoted t c = before_attr_name t c"

definition self_closing :: "tag \<Rightarrow> 16 word \<Rightarrow> (token list \<times> tstate) option" where
  "self_closing t c = (if c = 0x3E then emit t else before_attr_name t c)"

fun step :: "tstate \<Rightarrow> 16 word \<Rightarrow> (token list \<times> tstate) option" where
  "step Data c = data c"
| "step TagOpen c = tag_open c"
| "step EndTagOpen c = end_tag_open c"
| "step (TagName t) c = in_tag_name t c"
| "step (BeforeAttrName t) c = before_attr_name t c"
| "step (AttrName t n) c = in_attr_name t n c"
| "step (AfterAttrName t n) c = after_attr_name t n c"
| "step (BeforeAttrValue t n) c = before_attr_value t n c"
| "step (ValueDoubleQuoted t n v) c = value_double_quoted t n v c"
| "step (ValueSingleQuoted t n v) c = value_single_quoted t n v c"
| "step (ValueUnquoted t n v) c = value_unquoted t n v c"
| "step (AfterValueQuoted t) c = after_value_quoted t c"
| "step (SelfClosing t) c = self_closing t c"

text \<open>
  At the end of the input an unfinished tag is dropped; a \<open><\<close> or \<open></\<close> that opened
  nothing is text.
\<close>

fun at_end :: "tstate \<Rightarrow> token list" where
  "at_end TagOpen = [Character 0x3C]"
| "at_end EndTagOpen = [Character 0x3C, Character 0x2F]"
| "at_end _ = []"

fun tokenize :: "tstate \<Rightarrow> jsstring \<Rightarrow> token list option" where
  "tokenize s [] = Some (at_end s)"
| "tokenize s (c # cs) = do {
     (ts, s') \<leftarrow> step s c;
     rest \<leftarrow> tokenize s' cs;
     Some (ts @ rest)
   }"

text \<open>
  Tree construction, on a stack of open elements with the region itself at the bottom; an
  entry holds the name, the attributes and the children so far, the last one first.
  A character joins the text node before it, U+0000 is ignored. A start tag \<open>a\<close> or \<open>div\<close>
  opens an element unless an \<open>a\<close> is open; an end tag closes the current element when it
  names it. At the end of the input the open elements are closed.
\<close>

type_synonym open_element = "jsstring \<times> (jsstring \<times> jsstring) list \<times> node list"

fun insert_character :: "16 word \<Rightarrow> node list \<Rightarrow> node list" where
  "insert_character c (TextNode s # ns) = TextNode (s @ [c]) # ns"
| "insert_character c ns = TextNode [c] # ns"

fun close_all :: "open_element list \<Rightarrow> node list" where
  "close_all [] = []"
| "close_all [(n, a, ch)] = rev ch"
| "close_all ((n, a, ch) # (n', a', ch') # es) =
     close_all ((n', a', Element n a (rev ch) # ch') # es)"

fun construct :: "open_element list \<Rightarrow> token list \<Rightarrow> node list option" where
  "construct es [] = Some (close_all es)"
| "construct [] (t # ts) = None"
| "construct ((n, a, ch) # es) (Character c # ts) =
     (if c = 0 then construct ((n, a, ch) # es) ts
      else construct ((n, a, insert_character c ch) # es) ts)"
| "construct ((n, a, ch) # es) (StartTag m b # ts) =
     (if (m = str ''a'' \<or> m = str ''div'') \<and> str ''a'' \<notin> set (map fst ((n, a, ch) # es))
      then construct ((m, b, []) # (n, a, ch) # es) ts
      else None)"
| "construct [(n, a, ch)] (EndTag m # ts) = None"
| "construct ((n, a, ch) # (n', a', ch') # es) (EndTag m # ts) =
     (if m = n then construct ((n', a', Element n a (rev ch) # ch') # es) ts else None)"

definition parse_fragment :: "jsstring \<Rightarrow> node list option" where
  "parse_fragment s = do {
     ts \<leftarrow> tokenize Data (normalize_newlines s);
     construct [([], [], [])] ts
   }"

text \<open>
  The children of a region: \<open>textContent = s\<close> leaves one text node, or none for the empty
  string; \<open>innerHTML = s\<close> leaves what the parser builds.
\<close>

fun rendered :: "content \<Rightarrow> node list option" where
  "rendered (Text s) = Some (if s = [] then [] else [TextNode s])"
| "rendered (Html s) = parse_fragment s"

section \<open>The documents of the data model\<close>

text \<open>
  The data model of the specification, as predicates on parsed values. A field is absent
  when the object has no such property or the property is \<open>null\<close>, and present
  otherwise; every field is optional. Integers are the safe integers, which
  \<open>String\<close> renders by their decimal digits.
\<close>

fun field :: "val \<Rightarrow> jsstring \<Rightarrow> val option" where
  "field (JObj kvs) k = (if nullish (lookup kvs k) then None else Some (lookup kvs k))"
| "field _ k = None"

definition field2 :: "val \<Rightarrow> jsstring \<Rightarrow> jsstring \<Rightarrow> val option" where
  "field2 j k1 k2 = (case field j k1 of None \<Rightarrow> None | Some a \<Rightarrow> field a k2)"

definition present :: "val option \<Rightarrow> bool" where
  "present v = (v \<noteq> None)"

fun is_object :: "val \<Rightarrow> bool" where
  "is_object (JObj kvs) = True"
| "is_object _ = False"

fun is_text :: "val \<Rightarrow> bool" where
  "is_text (JStr s) = True"
| "is_text _ = False"

fun is_integer :: "val \<Rightarrow> bool" where
  "is_integer (JNum n) = (- (2 ^ 53) < n \<and> n < 2 ^ 53)"
| "is_integer _ = False"

fun is_text_list :: "val \<Rightarrow> bool" where
  "is_text_list (JArr xs) = list_all is_text xs"
| "is_text_list _ = False"

definition optional :: "(val \<Rightarrow> bool) \<Rightarrow> val option \<Rightarrow> bool" where
  "optional P v = (case v of None \<Rightarrow> True | Some x \<Rightarrow> P x)"

definition ReportDocument :: "val \<Rightarrow> bool" where
  "ReportDocument j \<longleftrightarrow>
     is_object j
   \<and> optional is_integer (field j (str ''day_number''))
   \<and> optional is_text (field j (str ''date''))
   \<and> optional is_text (field j (str ''diagnosis''))
   \<and> optional is_object (field j (str ''agon''))
   \<and> optional is_text (field2 j (str ''agon'') (str ''summary''))
   \<and> optional is_text (field2 j (str ''agon'') (str ''winner''))
   \<and> optional is_object (field j (str ''mandate''))
   \<and> optional is_text (field2 j (str ''mandate'') (str ''medium''))
   \<and> optional is_text (field2 j (str ''mandate'') (str ''emotional_axis''))
   \<and> optional is_text_list (field2 j (str ''mandate'') (str ''constraints''))
   \<and> optional is_integer (field2 j (str ''mandate'') (str ''timebox_hours''))
   \<and> optional is_text (field2 j (str ''mandate'') (str ''deliverable''))
   \<and> optional is_object (field j (str ''artifact''))
   \<and> optional is_text (field2 j (str ''artifact'') (str ''status''))
   \<and> optional is_text (field2 j (str ''artifact'') (str ''url''))
   \<and> optional is_object (field j (str ''engine''))
   \<and> optional is_text (field2 j (str ''engine'') (str ''version''))"

definition ArchiveIndex :: "val \<Rightarrow> bool" where
  "ArchiveIndex j \<longleftrightarrow> is_object j \<and> optional is_text_list (field j (str ''dates''))"

text \<open>The content of a field: its text, its number in digits, its list of texts.\<close>

fun text_of :: "val option \<Rightarrow> jsstring" where
  "text_of (Some (JStr s)) = s"
| "text_of _ = []"

fun digits_of :: "val option \<Rightarrow> jsstring" where
  "digits_of (Some (JNum n)) = number_to_string n"
| "digits_of _ = []"

fun texts_of :: "val option \<Rightarrow> jsstring list" where
  "texts_of (Some (JArr xs)) = map (\<lambda>x. text_of (Some x)) xs"
| "texts_of _ = []"

subsection \<open>The regions as the specification words them\<close>

text \<open>
  The day label with the padding applied to the day number or, when that is absent, to
  the empty string.
\<close>

definition day_label :: "val \<Rightarrow> jsstring" where
  "day_label j =
     str ''DAY '' @ padStart 3 0x30 (digits_of (field j (str ''day_number'')))
     @ str '' '' @ [em_dash] @ str '' '' @ text_of (field j (str ''date''))"

text \<open>The day label with an absent day number contributing the empty string.\<close>

definition day_label_empty_when_absent :: "val \<Rightarrow> jsstring" where
  "day_label_empty_when_absent j =
     str ''DAY ''
     @ (if present (field j (str ''day_number''))
        then padStart 3 0x30 (digits_of (field j (str ''day_number''))) else [])
     @ str '' '' @ [em_dash] @ str '' '' @ text_of (field j (str ''date''))"

text \<open>The agon text, each part contributed when its field is a non-empty text.\<close>

definition agon_text :: "val \<Rightarrow> jsstring" where
  "agon_text j =
     trim ((if text_of (field2 j (str ''agon'') (str ''summary'')) \<noteq> []
            then text_of (field2 j (str ''agon'') (str ''summary'')) @ [newline, newline]
            else [])
           @ (if text_of (field2 j (str ''agon'') (str ''winner'')) \<noteq> []
              then str ''Winner: '' @ text_of (field2 j (str ''agon'') (str ''winner''))
              else []))"

text \<open>The agon text, each part contributed when its field is present.\<close>

definition agon_text_when_present :: "val \<Rightarrow> jsstring" where
  "agon_text_when_present j =
     trim ((if present (field2 j (str ''agon'') (str ''summary''))
            then text_of (field2 j (str ''agon'') (str ''summary'')) @ [newline, newline]
            else [])
           @ (if present (field2 j (str ''agon'') (str ''winner''))
              then str ''Winner: '' @ text_of (field2 j (str ''agon'') (str ''winner''))
              else []))"

text \<open>The five mandate lines in their fixed order, before trimming.\<close>

definition mandate_five :: "val \<Rightarrow> jsstring list" where
  "mandate_five j =
     [str ''Compose: '' @ text_of (field2 j (str ''mandate'') (str ''medium'')),
      str ''Emotional axis: '' @ text_of (field2 j (str ''mandate'') (str ''emotional_axis'')),
      str ''Constraint(s): ''
        @ join_strings (str ''; '') (texts_of (field2 j (str ''mandate'') (str ''constraints''))),
      str ''Timebox: ''
        @ (if present (field2 j (str ''mandate'') (str ''timebox_hours''))
           then digits_of (field2 j (str ''mandate'') (str ''timebox_hours''))
           else number_to_string 8)
        @ str '' hours'',
      str ''Deliverable: '' @ text_of (field2 j (str ''mandate'') (str ''deliverable''))]"

definition mandate_block :: "val \<Rightarrow> jsstring" where
  "mandate_block j = join_strings [newline] (filter (\<lambda>l. l \<noteq> []) (map trim (mandate_five j)))"

text \<open>The artifact region: the link when the status is DONE and the url is a non-empty text.\<close>

definition artifact_region :: "val \<Rightarrow> content" where
  "artifact_region j =
     (if field2 j (str ''artifact'') (str ''status'') = Some (JStr (str ''DONE''))
         \<and> text_of (field2 j (str ''artifact'') (str ''url'')) \<noteq> []
      then Html (done_link (text_of (field2 j (str ''artifact'') (str ''url''))))
      else Text (str ''PENDING''))"


text \<open>The text \<open>DONE\<close>, the dash, and a link to the url labelled \<open>Open\<close>.\<close>

definition done_nodes :: "jsstring \<Rightarrow> node list" where
  "done_nodes url =
     [TextNode (str ''DONE '' @ [em_dash] @ str '' ''),
      Element (str ''a'') [(str ''href'', url)] [TextNode (str ''Open'')]]"


text \<open>The build label after a successful parse: written for a non-empty version text.\<close>

definition build_label :: "val \<Rightarrow> content \<Rightarrow> content" where
  "build_label j before =
     (if text_of (field2 j (str ''engine'') (str ''version'')) \<noteq> []
      then Text (str ''ENGINE v'' @ text_of (field2 j (str ''engine'') (str ''version'')))
      else before)"

text \<open>The three failures the specification names.\<close>

fun load_fails :: "fetched \<Rightarrow> bool" where
  "load_fails NetworkFailure = True"
| "load_fails (Response st b) = (\<not> ok st \<or> b = None)"

text \<open>The error each of them logs.\<close>

fun failure :: "fetched \<Rightarrow> error" where
  "failure NetworkFailure = FetchRejected"
| "failure (Response st b) = (if \<not> ok st then FetchFailed st else JsonParseError)"

text \<open>The archive entry of a date, and the list of a sequence of dates.\<close>

definition link_target :: "jsstring \<Rightarrow> jsstring" where
  "link_target d =
     str ''reports/'' @ take 4 d @ str ''/'' @ take 2 (drop 5 d) @ str ''/'' @ d @ str ''.json''"

definition link_entry :: "jsstring \<Rightarrow> jsstring" where
  "link_entry d =
     str ''<div><a href='' @ [dquote] @ link_target d @ [dquote] @ str ''>'' @ d
     @ str ''</a></div>''"

definition descending :: "jsstring list \<Rightarrow> jsstring list" where
  "descending ds = rev (sort ds)"

subsection \<open>Concrete pages and documents\<close>

definition old_page :: page where
  "old_page =
     \<lparr>console = [], status = Text (str ''Loading''), day = Text (str ''DAY 001''),
      diagnosis = Text (str ''old diagnosis''), agon = Text (str ''old agon''),
      mandate = Text (str ''old mandate''), artifact = Text (str ''old artifact''),
      build = Text (str ''ENGINE v0.9'')\<rparr>"

definition old_archive :: archive_page where
  "old_archive = \<lparr>console = [], list = Text (str ''Loading'')\<rparr>"


definition doc_day3 :: val where
  "doc_day3 = JObj [(str ''day_number'', JNum 3), (str ''date'', JStr (str ''2026-02-08''))]"

definition doc_date_only :: val where
  "doc_date_only = JObj [(str ''date'', JStr (str ''2026-02-08''))]"





definition doc_constraints :: val where
  "doc_constraints =
     JObj [(str ''mandate'',
            JObj [(str ''constraints'',
                   JArr [JStr (str ''no dialogue''), JStr (str ''single shot'')])])]"

definition doc_agon :: val where
  "doc_agon =
     JObj [(str ''agon'',
            JObj [(str ''summary'', JStr (str ''Two drafts'')), (str ''winner'', JStr (str ''B''))])]"

definition doc_agon_empty_winner :: val where
  "doc_agon_empty_winner =
     JObj [(str ''agon'', JObj [(str ''summary'', JStr (str ''x'')), (str ''winner'', JStr [])])]"



definition doc_constraints_not_a_list :: val where
  "doc_constraints_not_a_list =
     JObj [(str ''day_number'', JNum 3), (str ''date'', JStr (str ''2026-02-08'')),
           (str ''diagnosis'', JStr (str ''stalled'')),
           (str ''mandate'', JObj [(str ''constraints'', JStr (str ''no dialogue''))])]"

definition index_two :: val where
  "index_two = JObj [(str ''dates'', JArr [JStr (str ''2026-02-08''), JStr (str ''2026-01-01'')])]"

definition index_unsorted :: val where
  "index_unsorted =
     JObj [(str ''dates'',
            JArr [JStr (str ''2026-01-01''), JStr (str ''2026-02-08''), JStr (str ''2025-12-31'')])]"

definition index_no_dates :: val where
  "index_no_dates = JObj []"

definition index_empty_dates :: val where
  "index_empty_dates = JObj [(str ''dates'', JArr [])]"

section \<open>Documents of the data model render without a throw\<close>

lemma object_cases:
  assumes "is_object j"
  obtains kvs where "j = JObj kvs"
  using assms by (cases j) simp_all

lemma text_field:
  assumes "is_object j" and "optional is_text (field j k)"
  shows "\<exists>v. get j k = Some v
           \<and> to_string (coalesce v (JStr [])) = Some (text_of (field j k))"
proof -
  from assms(1) obtain kvs where j: "j = JObj kvs" by (rule object_cases)
  show ?thesis
    using assms(2) unfolding j
    by (cases "lookup kvs k") (simp_all add: optional_def coalesce_def)
qed

lemma integer_field:
  assumes "is_object j" and "optional is_integer (field j k)"
  shows "\<exists>v. get j k = Some v
           \<and> to_string (coalesce v (JStr [])) = Some (digits_of (field j k))
           \<and> to_string (coalesce v (JNum 8))
               = Some (if present (field j k) then digits_of (field j k)
                       else number_to_string 8)"
proof -
  from assms(1) obtain kvs where j: "j = JObj kvs" by (rule object_cases)
  show ?thesis
    using assms(2) unfolding j
    by (cases "lookup kvs k") (simp_all add: optional_def coalesce_def present_def)
qed

lemma join_texts:
  "list_all is_text xs \<Longrightarrow> join sep xs = Some (join_strings sep (map (\<lambda>x. text_of (Some x)) xs))"
proof (induction xs rule: induct_list012)
  case 1
  then show ?case by simp
next
  case (2 x)
  then show ?case by (cases x) simp_all
next
  case (3 x y zs)
  then show ?case by (cases x) simp_all
qed

lemma text_list_field:
  assumes "is_object j" and "optional is_text_list (field j k)"
  shows "\<exists>v. get j k = Some v
           \<and> call_join (or_else v (JArr [])) sep = Some (join_strings sep (texts_of (field j k)))"
proof -
  from assms(1) obtain kvs where j: "j = JObj kvs" by (rule object_cases)
  show ?thesis
    using assms(2) unfolding j
    by (cases "lookup kvs k") (simp_all add: optional_def or_else_def join_texts)
qed

lemma nested_text_field:
  assumes "is_object j" and "optional is_object (field j k1)"
    and "optional is_text (field2 j k1 k2)"
  shows "\<exists>a v. get j k1 = Some a \<and> get_opt a k2 = Some v
           \<and> truthy v = (text_of (field2 j k1 k2) \<noteq> [])
           \<and> (truthy v \<longrightarrow> get a k2 = Some v \<and> to_string v = Some (text_of (field2 j k1 k2)))
           \<and> (\<forall>s. v = JStr s \<longleftrightarrow> field2 j k1 k2 = Some (JStr s))"
proof -
  from assms(1) obtain kvs where j: "j = JObj kvs" by (rule object_cases)
  show ?thesis
  proof (cases "nullish (lookup kvs k1)")
    case True
    then show ?thesis
      unfolding j by (simp add: get_opt_def field2_def)
  next
    case False
    with assms(2) obtain kvs' where a: "lookup kvs k1 = JObj kvs'"
      unfolding j by (cases "lookup kvs k1") (simp_all add: optional_def)
    show ?thesis
      using assms(3) unfolding j
      by (cases "lookup kvs' k2") (auto simp add: a get_opt_def field2_def optional_def)
  qed
qed

lemma or_empty_object:
  assumes "is_object j" and "optional is_object (field j k1)"
  shows "\<exists>mv. get j k1 = Some mv \<and> is_object (or_else mv (JObj []))
           \<and> (\<forall>k2. field (or_else mv (JObj [])) k2 = field2 j k1 k2)"
proof -
  from assms(1) obtain kvs where j: "j = JObj kvs" by (rule object_cases)
  show ?thesis
    using assms(2) unfolding j
    by (cases "lookup kvs k1") (simp_all add: optional_def or_else_def field2_def lookup_def)
qed


lemma day_text_document:
  assumes "ReportDocument j"
  shows "day_text j = Some (day_label j)"
proof -
  from assms have o: "is_object j"
    and n: "optional is_integer (field j (str ''day_number''))"
    and d: "optional is_text (field j (str ''date''))"
    by (simp_all add: ReportDocument_def)
  from integer_field [OF o n] obtain v where
    v: "get j (str ''day_number'') = Some v"
       "to_string (coalesce v (JStr [])) = Some (digits_of (field j (str ''day_number'')))"
    by blast
  from text_field [OF o d] obtain w where
    w: "get j (str ''date'') = Some w"
       "to_string (coalesce w (JStr [])) = Some (text_of (field j (str ''date'')))"
    by blast
  show ?thesis
    by (simp add: day_text_def day_label_def v w)
qed

lemma diagnosis_text_document:
  assumes "ReportDocument j"
  shows "diagnosis_text j = Some (text_of (field j (str ''diagnosis'')))"
proof -
  from assms have o: "is_object j" and d: "optional is_text (field j (str ''diagnosis''))"
    by (simp_all add: ReportDocument_def)
  from text_field [OF o d] obtain w where
    "get j (str ''diagnosis'') = Some w"
    "to_string (coalesce w (JStr [])) = Some (text_of (field j (str ''diagnosis'')))"
    by blast
  then show ?thesis
    by (simp add: diagnosis_text_def)
qed

lemma agonText_document:
  assumes "ReportDocument j"
  shows "\<exists>s. agonText j = Some s \<and> trim s = agon_text j"
proof -
  from assms have o: "is_object j" and a: "optional is_object (field j (str ''agon''))"
    and s: "optional is_text (field2 j (str ''agon'') (str ''summary''))"
    and w: "optional is_text (field2 j (str ''agon'') (str ''winner''))"
    by (simp_all add: ReportDocument_def)
  from nested_text_field [OF o a s] obtain a1 v1 where
    1: "get j (str ''agon'') = Some a1" "get_opt a1 (str ''summary'') = Some v1"
       "truthy v1 = (text_of (field2 j (str ''agon'') (str ''summary'')) \<noteq> [])"
       "truthy v1 \<longrightarrow> get a1 (str ''summary'') = Some v1
          \<and> to_string v1 = Some (text_of (field2 j (str ''agon'') (str ''summary'')))"
    by blast
  from nested_text_field [OF o a w] obtain a2 v2 where
    2: "get j (str ''agon'') = Some a2" "get_opt a2 (str ''winner'') = Some v2"
       "truthy v2 = (text_of (field2 j (str ''agon'') (str ''winner'')) \<noteq> [])"
       "truthy v2 \<longrightarrow> get a2 (str ''winner'') = Some v2
          \<and> to_string v2 = Some (text_of (field2 j (str ''agon'') (str ''winner'')))"
    by blast
  from 1(1) 2(1) have same: "a2 = a1" by simp
  show ?thesis
    using 1 2 unfolding same
    by (cases "truthy v1"; cases "truthy v2") (simp_all add: agonText_def agon_text_def)
qed

lemma mandate_lines_document:
  assumes "ReportDocument j"
  shows "mandate_lines j = Some (filter (\<lambda>l. l \<noteq> []) (map trim (mandate_five j)))"
proof -
  from assms have o: "is_object j" and m: "optional is_object (field j (str ''mandate''))"
    and f1: "optional is_text (field2 j (str ''mandate'') (str ''medium''))"
    and f2: "optional is_text (field2 j (str ''mandate'') (str ''emotional_axis''))"
    and f3: "optional is_text_list (field2 j (str ''mandate'') (str ''constraints''))"
    and f4: "optional is_integer (field2 j (str ''mandate'') (str ''timebox_hours''))"
    and f5: "optional is_text (field2 j (str ''mandate'') (str ''deliverable''))"
    by (simp_all add: ReportDocument_def)
  from or_empty_object [OF o m] obtain mv where
    mv: "get j (str ''mandate'') = Some mv"
    and om: "is_object (or_else mv (JObj []))"
    and fm: "\<And>k. field (or_else mv (JObj [])) k = field2 j (str ''mandate'') k"
    by blast
  define mo where "mo = or_else mv (JObj [])"
  note om' = om [folded mo_def] and fm' = fm [folded mo_def]
  from text_field [OF om', of "str ''medium''"] f1 obtain v1 where
    1: "get mo (str ''medium'') = Some v1"
       "to_string (coalesce v1 (JStr []))
          = Some (text_of (field2 j (str ''mandate'') (str ''medium'')))"
    by (auto simp add: fm')
  from text_field [OF om', of "str ''emotional_axis''"] f2 obtain v2 where
    2: "get mo (str ''emotional_axis'') = Some v2"
       "to_string (coalesce v2 (JStr []))
          = Some (text_of (field2 j (str ''mandate'') (str ''emotional_axis'')))"
    by (auto simp add: fm')
  from text_list_field [OF om', of "str ''constraints''" "str ''; ''"] f3 obtain v3 where
    3: "get mo (str ''constraints'') = Some v3"
       "call_join (or_else v3 (JArr [])) (str ''; '')
          = Some (join_strings (str ''; '')
                   (texts_of (field2 j (str ''mandate'') (str ''constraints''))))"
    by (auto simp add: fm')
  from integer_field [OF om', of "str ''timebox_hours''"] f4 obtain v4 where
    4: "get mo (str ''timebox_hours'') = Some v4"
       "to_string (coalesce v4 (JNum 8))
          = Some (if present (field2 j (str ''mandate'') (str ''timebox_hours''))
                  then digits_of (field2 j (str ''mandate'') (str ''timebox_hours''))
                  else number_to_string 8)"
    by (auto simp add: fm')
  from text_field [OF om', of "str ''deliverable''"] f5 obtain v5 where
    5: "get mo (str ''deliverable'') = Some v5"
       "to_string (coalesce v5 (JStr []))
          = Some (text_of (field2 j (str ''mandate'') (str ''deliverable'')))"
    by (auto simp add: fm')
  show ?thesis
    unfolding mandate_lines_def mandate_five_def
    by (simp add: mv mo_def [symmetric] 1 2 3 4 5 del: filter.simps)
qed

lemma write_artifact_document:
  assumes "ReportDocument j"
  shows "write_artifact j p = Some (p\<lparr>artifact := artifact_region j\<rparr>)"
proof -
  from assms have o: "is_object j" and a: "optional is_object (field j (str ''artifact''))"
    and s: "optional is_text (field2 j (str ''artifact'') (str ''status''))"
    and u: "optional is_text (field2 j (str ''artifact'') (str ''url''))"
    by (simp_all add: ReportDocument_def)
  from nested_text_field [OF o a s] obtain a1 v1 where
    1: "get j (str ''artifact'') = Some a1" "get_opt a1 (str ''status'') = Some v1"
       "\<And>t. v1 = JStr t \<longleftrightarrow> field2 j (str ''artifact'') (str ''status'') = Some (JStr t)"
    by blast
  from nested_text_field [OF o a u] obtain a2 v2 where
    2: "get j (str ''artifact'') = Some a2" "get_opt a2 (str ''url'') = Some v2"
       "truthy v2 = (text_of (field2 j (str ''artifact'') (str ''url'')) \<noteq> [])"
       "truthy v2 \<longrightarrow> get a2 (str ''url'') = Some v2
          \<and> to_string v2 = Some (text_of (field2 j (str ''artifact'') (str ''url'')))"
    by blast
  from 1(1) 2(1) have same: "a2 = a1" by simp
  show ?thesis
    using 1 2 unfolding same
    by (cases "truthy v2")
      (simp_all add: write_artifact_def artifact_done_def artifact_region_def)
qed

lemma write_build_document:
  assumes "ReportDocument j"
  shows "write_build j p = Some (p\<lparr>build := build_label j (build p)\<rparr>)"
proof -
  from assms have o: "is_object j" and e: "optional is_object (field j (str ''engine''))"
    and v: "optional is_text (field2 j (str ''engine'') (str ''version''))"
    by (simp_all add: ReportDocument_def)
  from nested_text_field [OF o e v] obtain a1 v1 where
    "get j (str ''engine'') = Some a1" "get_opt a1 (str ''version'') = Some v1"
    "truthy v1 = (text_of (field2 j (str ''engine'') (str ''version'')) \<noteq> [])"
    "truthy v1 \<longrightarrow> get a1 (str ''version'') = Some v1
       \<and> to_string v1 = Some (text_of (field2 j (str ''engine'') (str ''version'')))"
    by blast
  then show ?thesis
    by (cases "truthy v1") (simp_all add: write_build_def build_label_def)
qed

lemma report_document_try:
  assumes "ReportDocument j" and "ok st"
  shows "try_report (Response st (Some j)) p =
           (None,
            p\<lparr>status := Text [], day := Text (day_label j),
              diagnosis := Text (text_of (field j (str ''diagnosis''))),
              agon := Text (agon_text j), mandate := Text (mandate_block j),
              artifact := artifact_region j, build := build_label j (build p)\<rparr>)"
proof -
  from agonText_document [OF assms(1)] obtain s where
    s: "agonText j = Some s" "trim s = agon_text j" by blast
  have "run_stmts (render j) p =
          (None,
           p\<lparr>status := Text [], day := Text (day_label j),
             diagnosis := Text (text_of (field j (str ''diagnosis''))),
             agon := Text (agon_text j), mandate := Text (mandate_block j),
             artifact := artifact_region j, build := build_label j (build p)\<rparr>)"
    by (simp add: render_def clear_status_def write_day_def day_text_document [OF assms(1)]
        write_diagnosis_def diagnosis_text_document [OF assms(1)]
        write_agon_def s write_mandate_def mandate_lines_document [OF assms(1)]
        mandate_block_def write_artifact_document [OF assms(1)]
        write_build_document [OF assms(1)] del: filter.simps)
  with assms(2) show ?thesis
    by (simp add: try_report_def)
qed

lemma report_document_renders:
  assumes "ReportDocument j" and "ok st"
  shows "ReportView (Response st (Some j)) p =
           (Fulfilled,
            p\<lparr>status := Text [], day := Text (day_label j),
              diagnosis := Text (text_of (field j (str ''diagnosis''))),
              agon := Text (agon_text j), mandate := Text (mandate_block j),
              artifact := artifact_region j, build := build_label j (build p)\<rparr>)"
  by (simp add: ReportView_def report_document_try [OF assms])

section \<open>What a failed render leaves untouched, and the five mandate lines\<close>

lemma write_day_frame:
  "write_day j p = Some p' \<Longrightarrow> build p' = build p \<and> console p' = console p"
  by (auto simp add: write_day_def split: bind_splits)

lemma write_diagnosis_frame:
  "write_diagnosis j p = Some p' \<Longrightarrow> build p' = build p \<and> console p' = console p"
  by (auto simp add: write_diagnosis_def split: bind_splits)

lemma write_agon_frame:
  "write_agon j p = Some p' \<Longrightarrow> build p' = build p \<and> console p' = console p"
  by (auto simp add: write_agon_def split: bind_splits)

lemma write_mandate_frame:
  "write_mandate j p = Some p' \<Longrightarrow> build p' = build p \<and> console p' = console p"
  by (auto simp add: write_mandate_def split: bind_splits)

lemma write_artifact_frame:
  "write_artifact j p = Some p' \<Longrightarrow> build p' = build p \<and> console p' = console p"
  by (auto simp add: write_artifact_def split: bind_splits if_splits)

lemma failed_render_frame:
  assumes "run_stmts (render j) p = (Some e, p')"
  shows "build p' = build p \<and> console p' = console p"
  using assms
  by (auto simp add: render_def clear_status_def split: option.splits
      dest!: write_day_frame write_diagnosis_frame write_agon_frame write_mandate_frame
        write_artifact_frame)

lemma failed_try_frame:
  assumes "try_report f p = (Some e, q)"
  shows "build q = build p \<and> console q = console p"
proof (cases f)
  case NetworkFailure
  with assms show ?thesis by (simp add: try_report_def)
next
  case (Response st b)
  with assms show ?thesis
    by (auto simp add: try_report_def split: if_splits option.splits dest: failed_render_frame)
qed


lemma named_failure_try:
  "load_fails f \<Longrightarrow> try_report f p = (Some (failure f), p)"
  by (cases f) (auto simp add: try_report_def)

lemma trim_nonempty: "\<not> is_space c \<Longrightarrow> trim (c # s) \<noteq> []"
  by (simp add: trim_def dropWhile_append dropWhile_eq_Nil_conv)

lemma mandate_always_five_lines:
  "length (filter (\<lambda>l. l \<noteq> []) (map trim (mandate_five j))) = 5"
  by (simp add: mandate_five_def str_def trim_nonempty is_space_def)

section \<open>Sorting and rendering an archive index\<close>

lemma insort_key_pairs:
  "insort_key fst (f x, x) (map (\<lambda>y. (f y, y)) ys) = map (\<lambda>y. (f y, y)) (insort_key f x ys)"
  by (induction ys) simp_all

lemma sort_key_pairs:
  "sort_key fst (map (\<lambda>y. (f y, y)) xs) = map (\<lambda>y. (f y, y)) (sort_key f xs)"
  by (induction xs) (simp_all add: insort_key_pairs)

lemma sort_by_zipped_keys:
  "map snd (sort_key fst (zip (map f xs) xs)) = sort_key f xs"
proof -
  have "zip (map f xs) xs = map (\<lambda>y. (f y, y)) xs"
    by (induction xs) simp_all
  then show ?thesis
    by (simp add: sort_key_pairs comp_def)
qed

lemma map_insort_key:
  "map f (insort_key f x ys) = insort (f x) (map f ys)"
  by (induction ys) simp_all

lemma map_sort_key:
  "map f (sort_key f xs) = sort (map f xs)"
  by (induction xs) (simp_all add: map_insort_key)

lemma those_map:
  "(\<And>x. x \<in> set xs \<Longrightarrow> f x = Some (g x)) \<Longrightarrow> those (map f xs) = Some (map g xs)"
  by (induction xs) simp_all

lemma text_to_string:
  "is_text x \<Longrightarrow> to_string x = Some (text_of (Some x))"
  by (cases x) simp_all

lemma text_defined:
  "is_text x \<Longrightarrow> x \<noteq> JUndefined"
  by (cases x) simp_all

lemma sort_array_texts:
  assumes "list_all is_text xs"
  shows "sort_array xs = Some (sort_key (\<lambda>x. text_of (Some x)) xs)"
proof -
  from assms have all: "\<And>x. x \<in> set xs \<Longrightarrow> is_text x"
    by (simp add: list_all_iff)
  then have d: "filter (\<lambda>x. x \<noteq> JUndefined) xs = xs"
    and u: "filter (\<lambda>x. x = JUndefined) xs = []"
    by (auto simp add: filter_id_conv filter_empty_conv dest: text_defined)
  have keys: "those (map to_string xs) = Some (map (\<lambda>x. text_of (Some x)) xs)"
    by (rule those_map) (simp add: all text_to_string)
  show ?thesis
  proof (cases "length xs \<le> 1")
    case True
    then have "sort_key (\<lambda>x. text_of (Some x)) xs = xs"
      by (cases xs) simp_all
    with True show ?thesis
      by (simp add: sort_array_def d u)
  next
    case False
    then show ?thesis
      by (simp add: sort_array_def d u keys sort_by_zipped_keys)
  qed
qed

lemma archive_entry_text:
  "is_text d \<Longrightarrow> archive_entry d = Some (link_entry (text_of (Some d)))"
  by (cases d) (simp_all add: archive_entry_def link_entry_def link_target_def)

lemma newest_first_texts:
  assumes "list_all is_text xs"
  shows "\<exists>ys. newest_first (JArr xs) = Some ys \<and> list_all is_text ys
           \<and> map (\<lambda>x. text_of (Some x)) ys = descending (map (\<lambda>x. text_of (Some x)) xs)"
proof -
  let ?ys = "rev (sort_key (\<lambda>x. text_of (Some x)) xs)"
  have "newest_first (JArr xs) = Some ?ys"
    by (simp add: newest_first_def sort_array_texts [OF assms])
  moreover from assms have "list_all is_text ?ys"
    by (simp add: list_all_iff)
  moreover have "map (\<lambda>x. text_of (Some x)) ?ys = descending (map (\<lambda>x. text_of (Some x)) xs)"
    by (simp add: descending_def rev_map [symmetric] map_sort_key)
  ultimately show ?thesis by blast
qed

lemma archive_markup_index:
  assumes "ArchiveIndex j"
  shows "archive_markup j
           = Some (concat (map link_entry (descending (texts_of (field j (str ''dates''))))))"
proof -
  from assms obtain kvs where j: "j = JObj kvs"
    by (auto simp add: ArchiveIndex_def elim: object_cases)
  from assms have t: "optional is_text_list (field j (str ''dates''))"
    by (simp add: ArchiveIndex_def)
  show ?thesis
  proof (cases "nullish (lookup kvs (str ''dates''))")
    case True
    then have "or_else (lookup kvs (str ''dates'')) (JArr []) = JArr []"
      by (cases "lookup kvs (str ''dates'')") (simp_all add: or_else_def)
    with True show ?thesis
      unfolding j
      by (simp add: archive_markup_def newest_first_def sort_array_def descending_def)
  next
    case False
    with t obtain xs where xs: "lookup kvs (str ''dates'') = JArr xs" and a: "list_all is_text xs"
      unfolding j by (cases "lookup kvs (str ''dates'')") (simp_all add: optional_def)
    from newest_first_texts [OF a] obtain ys where
      ys: "newest_first (JArr xs) = Some ys" "list_all is_text ys"
          "map (\<lambda>x. text_of (Some x)) ys = descending (map (\<lambda>x. text_of (Some x)) xs)"
      by blast
    have "those (map archive_entry ys) = Some (map (\<lambda>d. link_entry (text_of (Some d))) ys)"
      using ys(2) by (intro those_map) (simp add: list_all_iff archive_entry_text)
    moreover have "map (\<lambda>d. link_entry (text_of (Some d))) ys
                     = map link_entry (map (\<lambda>x. text_of (Some x)) ys)"
      by simp
    ultimately show ?thesis
      unfolding j
      by (simp add: archive_markup_def xs or_else_def ys del: map_map)
  qed
qed

lemma archive_index_renders:
  assumes "ArchiveIndex j" and "ok st"
  shows "ArchiveView (Response st (Some j)) p
           = (Fulfilled,
              p\<lparr>list := Html (concat (map link_entry
                                 (descending (texts_of (field j (str ''dates''))))))\<rparr>)"
  using assms(2)
  by (simp add: ArchiveView_def try_archive_def write_list_def archive_markup_index [OF assms(1)])

section \<open>The link markup, parsed\<close>







text \<open>
  Why \<open>plain\<close> excludes what it excludes: a carriage return reaches the attribute as a line
  feed, U+0000 as U+FFFD, and an ampersand starts a character reference, which is outside
  the modelled part of the parser.
\<close>

lemma done_link_not_literal:
  "rendered (Html (done_link (str ''a'' @ [0x0D] @ str ''b'')))
     = Some (done_nodes (str ''a'' @ [0x0A] @ str ''b''))"
  "rendered (Html (done_link (str ''a'' @ [0]))) = Some (done_nodes (str ''a'' @ [0xFFFD]))"
  "rendered (Html (done_link (str ''a&amp;b''))) = None"
  by code_simp+

section \<open>ReportView: the failure path\<close>

text \<open>
  Claim C1. A load that fails, by a network error, a non-success status or a body that
  does not parse, or by any other error in the \<open>try\<close> block, sets the status region to the
  unavailable message, sets the diagnosis, agon, mandate and artifact regions to the empty
  text, leaves the build label as it was, logs the error, and the view completes without
  an exception. The three named failures happen before any write, so they leave the day
  label as it was too.
\<close>

theorem report_failure_path:
  assumes "load_fails f \<or> fst (try_report f p) \<noteq> None"
  shows "\<exists>e p'. ReportView f p = (Fulfilled, p')
           \<and> status p' = Text unavailable
           \<and> diagnosis p' = Text [] \<and> agon p' = Text [] \<and> mandate p' = Text []
           \<and> artifact p' = Text []
           \<and> build p' = build p
           \<and> console p' = console p @ [e]
           \<and> (load_fails f \<longrightarrow> e = failure f \<and> day p' = day p)"
proof -
  from assms obtain e q where t: "try_report f p = (Some e, q)"
    and n: "load_fails f \<longrightarrow> e = failure f \<and> q = p"
  proof (cases "load_fails f")
    case True
    with that named_failure_try [of f p] show ?thesis by simp
  next
    case False
    with assms have "fst (try_report f p) \<noteq> None" by simp
    then obtain e q where "try_report f p = (Some e, q)"
      by (cases "try_report f p") auto
    with that False show ?thesis by simp
  qed
  from t have "ReportView f p = (Fulfilled, catch_report e q)"
    by (simp add: ReportView_def)
  with failed_try_frame [OF t] n show ?thesis
    by (auto simp add: catch_report_def)
qed

theorem report_failure_path_witness:
  "load_fails NetworkFailure \<and> load_fails (Response 500 (Some doc_day3))
   \<and> load_fails (Response 200 None)
   \<and> ReportView NetworkFailure old_page
       = (Fulfilled,
          old_page\<lparr>status := Text (str ''Report unavailable right now.''), diagnosis := Text [],
            agon := Text [], mandate := Text [], artifact := Text [],
            console := [FetchRejected]\<rparr>)
   \<and> ReportView (Response 500 (Some doc_day3)) old_page
       = (Fulfilled,
          old_page\<lparr>status := Text (str ''Report unavailable right now.''), diagnosis := Text [],
            agon := Text [], mandate := Text [], artifact := Text [],
            console := [FetchFailed 500]\<rparr>)
   \<and> ReportView (Response 200 None) old_page
       = (Fulfilled,
          old_page\<lparr>status := Text (str ''Report unavailable right now.''), diagnosis := Text [],
            agon := Text [], mandate := Text [], artifact := Text [],
            console := [JsonParseError]\<rparr>)"
proof -
  have a: "load_fails NetworkFailure" by simp
  have b: "load_fails (Response 500 (Some doc_day3))" by (simp add: ok_def)
  have c: "load_fails (Response 200 None)" by simp
  from report_failure_path [of NetworkFailure old_page] a
  have 1: "ReportView NetworkFailure old_page
       = (Fulfilled,
          old_page\<lparr>status := Text (str ''Report unavailable right now.''), diagnosis := Text [],
            agon := Text [], mandate := Text [], artifact := Text [],
            console := [FetchRejected]\<rparr>)"
    by (auto simp add: old_page_def unavailable_def)
  from report_failure_path [of "Response 500 (Some doc_day3)" old_page] b
  have 2: "ReportView (Response 500 (Some doc_day3)) old_page
       = (Fulfilled,
          old_page\<lparr>status := Text (str ''Report unavailable right now.''), diagnosis := Text [],
            agon := Text [], mandate := Text [], artifact := Text [],
            console := [FetchFailed 500]\<rparr>)"
    by (auto simp add: old_page_def unavailable_def ok_def)
  from report_failure_path [of "Response 200 None" old_page] c
  have 3: "ReportView (Response 200 None) old_page
       = (Fulfilled,
          old_page\<lparr>status := Text (str ''Report unavailable right now.''), diagnosis := Text [],
            agon := Text [], mandate := Text [], artifact := Text [],
            console := [JsonParseError]\<rparr>)"
    by (auto simp add: old_page_def unavailable_def ok_def)
  from a b c 1 2 3 show ?thesis by blast
qed

text \<open>
  Claim C10. A success response whose body parses to \<open>null\<close> throws at the first property
  access: no default is rendered, the day label keeps its content, and the view ends in
  the failure path with the unavailable message and the four regions empty.
\<close>

theorem null_body_takes_failure_path:
  assumes "ok st" and "nullish j"
  shows "\<exists>p'. ReportView (Response st (Some j)) p = (Fulfilled, p')
           \<and> status p' = Text unavailable
           \<and> diagnosis p' = Text [] \<and> agon p' = Text [] \<and> mandate p' = Text []
           \<and> artifact p' = Text []
           \<and> day p' = day p \<and> build p' = build p
           \<and> console p' = console p @ [TypeError]"
proof -
  from assms(2) have "get j (str ''day_number'') = None"
    by (cases j) simp_all
  with assms(1) show ?thesis
    by (simp add: ReportView_def try_report_def catch_report_def render_def clear_status_def
        write_day_def day_text_def)
qed

theorem null_body_takes_failure_path_witness:
  "ok 200 \<and> nullish JNull
   \<and> ReportView (Response 200 (Some JNull)) old_page
       = (Fulfilled, old_page\<lparr>status := Text (str ''Report unavailable right now.''),
            diagnosis := Text [], agon := Text [], mandate := Text [], artifact := Text [],
            console := [TypeError]\<rparr>)"
proof -
  have h: "ok 200" by (simp add: ok_def)
  have n: "nullish JNull" by simp
  from null_body_takes_failure_path [OF h n, of old_page] h show ?thesis
    by (auto simp add: old_page_def unavailable_def)
qed

text \<open>
  Claim C6. A document whose constraints are a text instead of a list throws at
  \<open>.join\<close>, after the day label was written. The catch handler empties the diagnosis,
  agon, mandate and artifact regions and has no assignment for the day label: the page
  shows the unavailable message next to the day label of the failed render.
\<close>

theorem failed_render_keeps_day_label:
  "ReportView (Response 200 (Some doc_constraints_not_a_list)) old_page
     = (Fulfilled,
        old_page\<lparr>status := Text (str ''Report unavailable right now.''),
          day := Text (str ''DAY 003 '' @ [em_dash] @ str '' 2026-02-08''),
          diagnosis := Text [], agon := Text [], mandate := Text [], artifact := Text [],
          console := [TypeError]\<rparr>)
   \<and> day old_page = Text (str ''DAY 001'')
   \<and> day (snd (ReportView (Response 200 (Some doc_constraints_not_a_list)) old_page))
       \<noteq> Text []"
  by code_simp



section \<open>ReportView: the regions of a parsed document\<close>

text \<open>
  Claim C2, amended. For a parsed ReportDocument the day label is \<open>"DAY "\<close>, then the
  digits of the day number (the empty string when it is absent) padded on the left with
  \<open>"0"\<close> to width 3, then the dash between spaces, then the date (empty when absent).
  The padding applies to the default as well: an absent day number contributes \<open>"000"\<close>.
\<close>

theorem day_label_rendered:
  assumes "ReportDocument j" and "ok st"
  shows "\<exists>p'. ReportView (Response st (Some j)) p = (Fulfilled, p')
           \<and> console p' = console p
           \<and> day p' = Text (day_label j)
           \<and> (\<not> present (field j (str ''day_number'')) \<longrightarrow>
                day p' = Text (str ''DAY 000 '' @ [em_dash] @ str '' ''
                               @ text_of (field j (str ''date''))))"
proof -
  have "\<not> present (field j (str ''day_number'')) \<Longrightarrow>
          day_label j = str ''DAY 000 '' @ [em_dash] @ str '' '' @ text_of (field j (str ''date''))"
    by (simp add: day_label_def present_def padStart_def str_def numeral_3_eq_3)
  then show ?thesis
    using report_document_renders [OF assms, of p] by auto
qed

theorem day_label_rendered_witness:
  "ReportDocument doc_day3 \<and> ok 200
   \<and> day (snd (ReportView (Response 200 (Some doc_day3)) old_page))
       = Text (str ''DAY 003 '' @ [em_dash] @ str '' 2026-02-08'')"
proof -
  have h: "ReportDocument doc_day3" by code_simp
  have k: "ok 200" by code_simp
  have e: "day_label doc_day3 = str ''DAY 003 '' @ [em_dash] @ str '' 2026-02-08''"
    by code_simp
  from day_label_rendered [OF h k, of old_page] h k e show ?thesis by auto
qed

text \<open>
  Claim C2 as stated, with the empty string for an absent day number, fails on a document
  that has a date only: the label reads \<open>DAY 000\<close> before the dash.
\<close>

theorem day_label_absent_number_counterexample:
  "ReportDocument doc_date_only
   \<and> \<not> present (field doc_date_only (str ''day_number''))
   \<and> day (snd (ReportView (Response 200 (Some doc_date_only)) old_page))
       = Text (str ''DAY 000 '' @ [em_dash] @ str '' 2026-02-08'')
   \<and> day (snd (ReportView (Response 200 (Some doc_date_only)) old_page))
       \<noteq> Text (day_label_empty_when_absent doc_date_only)"
  by code_simp




text \<open>
  Claim C4. For a parsed ReportDocument the mandate region is built from the five lines
  Compose, Emotional axis, Constraint(s), Timebox, Deliverable in this order, each trimmed,
  the empty ones dropped, the rest joined with newlines; the constraints are joined with
  \<open>"; "\<close> and the timebox is 8 when \<open>timebox_hours\<close> is absent.
\<close>

theorem mandate_rendered:
  assumes "ReportDocument j" and "ok st"
  shows "\<exists>p'. ReportView (Response st (Some j)) p = (Fulfilled, p')
           \<and> console p' = console p
           \<and> mandate p' =
               Text (join_strings [newline] (filter (\<lambda>l. l \<noteq> []) (map trim (mandate_five j))))
           \<and> length (filter (\<lambda>l. l \<noteq> []) (map trim (mandate_five j))) \<le> 5
           \<and> (\<not> present (field2 j (str ''mandate'') (str ''timebox_hours'')) \<longrightarrow>
                mandate_five j ! 3 = str ''Timebox: 8 hours'')"
proof -
  let ?p' = "snd (ReportView (Response st (Some j)) p)"
  have r: "ReportView (Response st (Some j)) p = (Fulfilled, ?p')" "console ?p' = console p"
    and b: "mandate ?p' = Text (mandate_block j)"
    using report_document_renders [OF assms, of p] by simp_all
  have m: "mandate ?p'
             = Text (join_strings [newline] (filter (\<lambda>l. l \<noteq> []) (map trim (mandate_five j))))"
    using b unfolding mandate_block_def .
  have l: "length (filter (\<lambda>l. l \<noteq> []) (map trim (mandate_five j))) \<le> 5"
    by (simp only: mandate_always_five_lines)
  have t: "\<not> present (field2 j (str ''mandate'') (str ''timebox_hours'')) \<longrightarrow>
             mandate_five j ! 3 = str ''Timebox: 8 hours''"
    by (simp add: mandate_five_def numeral_3_eq_3 number_to_string_def digits.simps str_def)
  from r m l t show ?thesis by blast
qed

theorem mandate_rendered_witness:
  "ReportDocument doc_constraints \<and> ok 200
   \<and> mandate_five doc_constraints ! 2 = str ''Constraint(s): no dialogue; single shot''
   \<and> mandate (snd (ReportView (Response 200 (Some doc_constraints)) old_page))
       = Text (str ''Compose:'' @ [newline] @ str ''Emotional axis:'' @ [newline]
               @ str ''Constraint(s): no dialogue; single shot'' @ [newline]
               @ str ''Timebox: 8 hours'' @ [newline] @ str ''Deliverable:'')"
proof -
  have h: "ReportDocument doc_constraints" by code_simp
  have k: "ok 200" by code_simp
  have c: "mandate_five doc_constraints ! 2 = str ''Constraint(s): no dialogue; single shot''"
    by code_simp
  have e: "join_strings [newline] (filter (\<lambda>l. l \<noteq> []) (map trim (mandate_five doc_constraints)))
       = str ''Compose:'' @ [newline] @ str ''Emotional axis:'' @ [newline]
               @ str ''Constraint(s): no dialogue; single shot'' @ [newline]
               @ str ''Timebox: 8 hours'' @ [newline] @ str ''Deliverable:''"
    by code_simp
  from mandate_rendered [OF h k, of old_page] h k c e show ?thesis by auto
qed

text \<open>
  Claim C7, amended. For a parsed ReportDocument the agon region is the trim of the
  summary followed by two newlines when the summary is a non-empty text, then
  \<open>"Winner: "\<close> and the winner when the winner is a non-empty text; a part whose field is
  absent or the empty text contributes nothing, and every combination renders without
  an error.
\<close>

theorem agon_rendered:
  assumes "ReportDocument j" and "ok st"
  shows "\<exists>p'. ReportView (Response st (Some j)) p = (Fulfilled, p')
           \<and> console p' = console p \<and> status p' = Text []
           \<and> agon p' =
               Text (trim ((if text_of (field2 j (str ''agon'') (str ''summary'')) \<noteq> []
                            then text_of (field2 j (str ''agon'') (str ''summary''))
                                 @ [newline, newline]
                            else [])
                           @ (if text_of (field2 j (str ''agon'') (str ''winner'')) \<noteq> []
                              then str ''Winner: ''
                                   @ text_of (field2 j (str ''agon'') (str ''winner''))
                              else [])))"
  using report_document_renders [OF assms, of p]
  by (simp add: agon_text_def)

theorem agon_rendered_witness:
  "ReportDocument doc_agon \<and> ok 200
   \<and> agon (snd (ReportView (Response 200 (Some doc_agon)) old_page))
       = Text (str ''Two drafts'' @ [newline, newline] @ str ''Winner: B'')"
proof -
  have h: "ReportDocument doc_agon" by code_simp
  have k: "ok 200" by code_simp
  have e: "trim ((if text_of (field2 doc_agon (str ''agon'') (str ''summary'')) \<noteq> []
                  then text_of (field2 doc_agon (str ''agon'') (str ''summary''))
                       @ [newline, newline]
                  else [])
                 @ (if text_of (field2 doc_agon (str ''agon'') (str ''winner'')) \<noteq> []
                    then str ''Winner: '' @ text_of (field2 doc_agon (str ''agon'') (str ''winner''))
                    else []))
           = str ''Two drafts'' @ [newline, newline] @ str ''Winner: B''"
    by code_simp
  from agon_rendered [OF h k, of old_page] h k e show ?thesis by auto
qed

text \<open>
  Claim C7 as stated, with each part contributed whenever its field is present, fails on
  a summary \<open>"x"\<close> with the winner \<open>""\<close>: the winner is present and the region reads \<open>x\<close>,
  without a \<open>Winner:\<close> line.
\<close>

theorem agon_empty_winner_counterexample:
  "ReportDocument doc_agon_empty_winner
   \<and> present (field2 doc_agon_empty_winner (str ''agon'') (str ''winner''))
   \<and> agon (snd (ReportView (Response 200 (Some doc_agon_empty_winner)) old_page))
       = Text (str ''x'')
   \<and> agon_text_when_present doc_agon_empty_winner
       = str ''x'' @ [newline, newline] @ str ''Winner:''
   \<and> agon (snd (ReportView (Response 200 (Some doc_agon_empty_winner)) old_page))
       \<noteq> Text (agon_text_when_present doc_agon_empty_winner)"
  by code_simp

section \<open>ArchiveView: the list\<close>

text \<open>
  Claim C5. For a fetched ArchiveIndex the list holds one link per date, the dates sorted
  ascending by code units and then reversed; the target of a link is \<open>reports/\<close>, the first
  four characters of the date, \<open>/\<close>, its characters 6 to 7, \<open>/\<close>, the date and \<open>.json\<close>,
  and its label is the date.
\<close>

theorem archive_links_newest_first:
  assumes "ArchiveIndex j" and "ok st"
  shows "\<exists>p'. ArchiveView (Response st (Some j)) p = (Fulfilled, p')
           \<and> console p' = console p
           \<and> list p' = Html (concat (map link_entry
                               (rev (sort (texts_of (field j (str ''dates'')))))))
           \<and> sorted (rev (rev (sort (texts_of (field j (str ''dates''))))))
           \<and> mset (rev (sort (texts_of (field j (str ''dates'')))))
               = mset (texts_of (field j (str ''dates'')))
           \<and> (\<forall>d. link_entry d =
                 str ''<div><a href='' @ [dquote]
                 @ str ''reports/'' @ take 4 d @ str ''/'' @ take 2 (drop 5 d) @ str ''/'' @ d
                 @ str ''.json'' @ [dquote] @ str ''>'' @ d @ str ''</a></div>'')"
  using archive_index_renders [OF assms, of p]
  by (simp add: descending_def link_entry_def link_target_def)

theorem archive_links_newest_first_witness:
  "ArchiveIndex index_two \<and> ArchiveIndex index_unsorted \<and> ok 200
   \<and> list (snd (ArchiveView (Response 200 (Some index_two)) old_archive))
       = Html (str ''<div><a href='' @ [dquote] @ str ''reports/2026/02/2026-02-08.json''
               @ [dquote] @ str ''>2026-02-08</a></div>''
               @ str ''<div><a href='' @ [dquote] @ str ''reports/2026/01/2026-01-01.json''
               @ [dquote] @ str ''>2026-01-01</a></div>'')
   \<and> list (snd (ArchiveView (Response 200 (Some index_unsorted)) old_archive))
       = Html (str ''<div><a href='' @ [dquote] @ str ''reports/2026/02/2026-02-08.json''
               @ [dquote] @ str ''>2026-02-08</a></div>''
               @ str ''<div><a href='' @ [dquote] @ str ''reports/2026/01/2026-01-01.json''
               @ [dquote] @ str ''>2026-01-01</a></div>''
               @ str ''<div><a href='' @ [dquote] @ str ''reports/2025/12/2025-12-31.json''
               @ [dquote] @ str ''>2025-12-31</a></div>'')"
proof -
  have h: "ArchiveIndex index_two" by code_simp
  have h': "ArchiveIndex index_unsorted" by code_simp
  have k: "ok 200" by code_simp
  have e: "concat (map link_entry (rev (sort (texts_of (field index_two (str ''dates''))))))
       = str ''<div><a href='' @ [dquote] @ str ''reports/2026/02/2026-02-08.json''
               @ [dquote] @ str ''>2026-02-08</a></div>''
               @ str ''<div><a href='' @ [dquote] @ str ''reports/2026/01/2026-01-01.json''
               @ [dquote] @ str ''>2026-01-01</a></div>''"
    by code_simp
  have e': "concat (map link_entry (rev (sort (texts_of (field index_unsorted (str ''dates''))))))
       = str ''<div><a href='' @ [dquote] @ str ''reports/2026/02/2026-02-08.json''
               @ [dquote] @ str ''>2026-02-08</a></div>''
               @ str ''<div><a href='' @ [dquote] @ str ''reports/2026/01/2026-01-01.json''
               @ [dquote] @ str ''>2026-01-01</a></div>''
               @ str ''<div><a href='' @ [dquote] @ str ''reports/2025/12/2025-12-31.json''
               @ [dquote] @ str ''>2025-12-31</a></div>''"
    by code_simp
  from archive_links_newest_first [OF h k, of old_archive] e
  have 1: "list (snd (ArchiveView (Response 200 (Some index_two)) old_archive))
       = Html (str ''<div><a href='' @ [dquote] @ str ''reports/2026/02/2026-02-08.json''
               @ [dquote] @ str ''>2026-02-08</a></div>''
               @ str ''<div><a href='' @ [dquote] @ str ''reports/2026/01/2026-01-01.json''
               @ [dquote] @ str ''>2026-01-01</a></div>'')"
    by auto
  from archive_links_newest_first [OF h' k, of old_archive] e'
  have 2: "list (snd (ArchiveView (Response 200 (Some index_unsorted)) old_archive))
       = Html (str ''<div><a href='' @ [dquote] @ str ''reports/2026/02/2026-02-08.json''
               @ [dquote] @ str ''>2026-02-08</a></div>''
               @ str ''<div><a href='' @ [dquote] @ str ''reports/2026/01/2026-01-01.json''
               @ [dquote] @ str ''>2026-01-01</a></div>''
               @ str ''<div><a href='' @ [dquote] @ str ''reports/2025/12/2025-12-31.json''
               @ [dquote] @ str ''>2025-12-31</a></div>'')"
    by auto
  from h h' k 1 2 show ?thesis by blast
qed

text \<open>
  Claim C9. For a fetched ArchiveIndex whose \<open>dates\<close> are absent or the empty sequence the
  list region is set to empty markup, no error is logged and the view completes: the
  failure path is not taken.
\<close>

theorem archive_without_dates:
  assumes "ArchiveIndex j" and "ok st"
    and "field j (str ''dates'') = None \<or> field j (str ''dates'') = Some (JArr [])"
  shows "ArchiveView (Response st (Some j)) p = (Fulfilled, p\<lparr>list := Html []\<rparr>)
         \<and> fst (try_archive (Response st (Some j)) p) = None"
proof -
  from assms(3) have "texts_of (field j (str ''dates'')) = []" by auto
  with archive_index_renders [OF assms(1,2), of p]
  have r: "ArchiveView (Response st (Some j)) p = (Fulfilled, p\<lparr>list := Html []\<rparr>)"
    by (simp add: descending_def)
  have "fst (try_archive (Response st (Some j)) p) = None"
    using assms(2) archive_markup_index [OF assms(1)]
    by (simp add: try_archive_def write_list_def)
  with r show ?thesis by simp
qed

theorem archive_without_dates_witness:
  "ArchiveIndex index_no_dates \<and> ArchiveIndex index_empty_dates \<and> ok 200
   \<and> field index_no_dates (str ''dates'') = None
   \<and> field index_empty_dates (str ''dates'') = Some (JArr [])
   \<and> ArchiveView (Response 200 (Some index_no_dates)) old_archive
       = (Fulfilled, \<lparr>console = [], list = Html []\<rparr>)
   \<and> ArchiveView (Response 200 (Some index_empty_dates)) old_archive
       = (Fulfilled, \<lparr>console = [], list = Html []\<rparr>)"
proof -
  have h1: "ArchiveIndex index_no_dates" by code_simp
  have h2: "ArchiveIndex index_empty_dates" by code_simp
  have k: "ok 200" by code_simp
  have a1: "field index_no_dates (str ''dates'') = None" by code_simp
  have a2: "field index_empty_dates (str ''dates'') = Some (JArr [])" by code_simp
  from archive_without_dates [OF h1 k, of old_archive] a1
  have 1: "ArchiveView (Response 200 (Some index_no_dates)) old_archive
       = (Fulfilled, \<lparr>console = [], list = Html []\<rparr>)"
    by (simp add: old_archive_def)
  from archive_without_dates [OF h2 k, of old_archive] a2
  have 2: "ArchiveView (Response 200 (Some index_empty_dates)) old_archive
       = (Fulfilled, \<lparr>console = [], list = Html []\<rparr>)"
    by (simp add: old_archive_def)
  from h1 h2 k a1 a2 1 2 show ?thesis by blast
qed

end
